theory Spec2Isabelle
  imports Complex_Main
begin

text \<open>
  The tutorials are four notebooks on astronomical coordinates: an introduction
  (\<^verbatim>\<open>src/unnamed/part_001\<close>), representations and frame transformations
  (\<^verbatim>\<open>src/2_Coordinates-Transforms.ipynb\<close>), velocities and space motion
  (\<^verbatim>\<open>src/unnamed/part_000\<close>) and catalog cross-matching
  (\<^verbatim>\<open>src/4_Coordinates-Crossmatch.ipynb\<close>). Their cells call a coordinate library and
  two archive query clients. The theory has the cells that compute with catalog data as
  functions of the tables and of the library's calls, the cells that bind a table or a
  centre as steps on the notebook's variables, and the statements of all code cells as a
  list; the properties follow the definitions.
\<close>

section \<open>Array values\<close>

text \<open>
  The catalog columns hold double-precision values. A value is a finite number, one of the
  two infinities, or NaN. Finite arithmetic is taken exact (no rounding, no overflow) and
  the sign of zero is not distinguished; the properties below only depend on comparisons
  and on which entries are NaN or masked.
\<close>

datatype fl = Fin real | PInf | NInf | NaN

fun isnan :: "fl \<Rightarrow> bool" where
  "isnan NaN = True"
| "isnan _ = False"

fun isfinite :: "fl \<Rightarrow> bool" where
  "isfinite (Fin _) = True"
| "isfinite _ = False"

text \<open>\<open>x < y\<close> on doubles: false as soon as one side is NaN.\<close>

fun flt :: "fl \<Rightarrow> fl \<Rightarrow> bool" where
  "flt NaN _ = False"
| "flt _ NaN = False"
| "flt (Fin a) (Fin b) = (a < b)"
| "flt (Fin _) PInf = True"
| "flt (Fin _) NInf = False"
| "flt NInf NInf = False"
| "flt NInf _ = True"
| "flt PInf _ = False"

definition fgt :: "fl \<Rightarrow> fl \<Rightarrow> bool" where
  "fgt x y = flt y x"

fun fneg :: "fl \<Rightarrow> fl" where
  "fneg (Fin a) = Fin (- a)"
| "fneg PInf = NInf"
| "fneg NInf = PInf"
| "fneg NaN = NaN"

fun fadd :: "fl \<Rightarrow> fl \<Rightarrow> fl" where
  "fadd NaN _ = NaN"
| "fadd _ NaN = NaN"
| "fadd (Fin a) (Fin b) = Fin (a + b)"
| "fadd PInf NInf = NaN"
| "fadd NInf PInf = NaN"
| "fadd PInf _ = PInf"
| "fadd _ PInf = PInf"
| "fadd NInf _ = NInf"
| "fadd _ NInf = NInf"

definition fsub :: "fl \<Rightarrow> fl \<Rightarrow> fl" where
  "fsub x y = fadd x (fneg y)"

text \<open>\<open>x ** 2\<close>\<close>

fun fsquare :: "fl \<Rightarrow> fl" where
  "fsquare (Fin a) = Fin (a * a)"
| "fsquare PInf = PInf"
| "fsquare NInf = PInf"
| "fsquare NaN = NaN"

text \<open>\<open>np.sqrt\<close>: NaN for a negative argument.\<close>

fun fsqrt :: "fl \<Rightarrow> fl" where
  "fsqrt (Fin a) = (if a < 0 then NaN else Fin (sqrt a))"
| "fsqrt PInf = PInf"
| "fsqrt NInf = NaN"
| "fsqrt NaN = NaN"

text \<open>Array division: a finite value over zero is an infinity of its sign, zero over zero is NaN.\<close>

fun fdiv :: "fl \<Rightarrow> fl \<Rightarrow> fl" where
  "fdiv NaN _ = NaN"
| "fdiv _ NaN = NaN"
| "fdiv (Fin a) (Fin b) =
     (if b \<noteq> 0 then Fin (a / b)
      else if 0 < a then PInf else if a < 0 then NInf else NaN)"
| "fdiv (Fin _) _ = Fin 0"
| "fdiv PInf (Fin b) = (if b < 0 then NInf else PInf)"
| "fdiv NInf (Fin b) = (if b < 0 then PInf else NInf)"
| "fdiv _ _ = NaN"

section \<open>Table columns\<close>

text \<open>
  A column read by \<open>QTable.read\<close> is either a plain \<open>Quantity\<close> array or a masked one,
  which keeps the underlying value of every entry next to its mask flag. Only the masked
  kind has the attributes \<open>mask\<close> and \<open>filled\<close>.
\<close>

datatype column = Quantity "fl list" | Masked "(fl \<times> bool) list"

datatype error = AttributeError | IndexError | KeyError | ValueError

fun hasattr_mask :: "column \<Rightarrow> bool" where
  "hasattr_mask (Quantity _) = False"
| "hasattr_mask (Masked _) = True"

fun unmasked :: "column \<Rightarrow> fl list" where
  "unmasked (Quantity xs) = xs"
| "unmasked (Masked vs) = map fst vs"

fun mask_of :: "column \<Rightarrow> bool list" where
  "mask_of (Quantity xs) = map (\<lambda>_. False) xs"
| "mask_of (Masked vs) = map snd vs"

definition nrows :: "column \<Rightarrow> nat" where
  "nrows c = length (unmasked c)"

text \<open>\<open>v.filled(fill_value)\<close>: a fresh plain array; a plain \<open>Quantity\<close> has no such method.\<close>

fun filled :: "fl \<Rightarrow> column \<Rightarrow> error + fl list" where
  "filled fill_value (Masked vs) = Inr (map (\<lambda>(x, m). if m then fill_value else x) vs)"
| "filled fill_value (Quantity xs) = Inl AttributeError"

text \<open>\<open>a[np.isnan(a)] = value\<close>\<close>

definition set_where_isnan :: "fl \<Rightarrow> fl list \<Rightarrow> fl list" where
  "set_where_isnan v a = map (\<lambda>x. if isnan x then v else x) a"

section \<open>Cross-match notebook: the missing-data block\<close>

text \<open>
  \<^verbatim>\<open>
  for k, v in velocity_data.items():
      if hasattr(v, "mask"):
          velocity_data[k] = v.filled(0.0)
      velocity_data[k][np.isnan(velocity_data[k])] = 0.0
  \<close>
  One iteration returns the pair of the table's column object after the iteration and the
  new value of \<open>velocity_data[k]\<close>. For a masked column \<open>filled\<close> allocates a fresh array and
  the table's column stays as it was; for a plain column \<open>velocity_data[k]\<close> is the table's
  own array, so the item assignment edits the table in place.
\<close>

definition fill_velocity :: "column \<Rightarrow> error + column \<times> fl list" where
  "fill_velocity v =
     (if hasattr_mask v then
        (case filled (Fin 0) v of
           Inl e \<Rightarrow> Inl e
         | Inr a \<Rightarrow> Inr (v, set_where_isnan (Fin 0) a))
      else
        (let a = set_where_isnan (Fin 0) (unmasked v) in Inr (Quantity a, a)))"

text \<open>The loop over the items of the dictionary, in insertion order.\<close>

fun fill_loop :: "(string \<times> column) list \<Rightarrow> error + (string \<times> column \<times> fl list) list" where
  "fill_loop [] = Inr []"
| "fill_loop ((k, v) # items) =
     (case fill_velocity v of
        Inl e \<Rightarrow> Inl e
      | Inr r \<Rightarrow>
          (case fill_loop items of
             Inl e \<Rightarrow> Inl e
           | Inr rs \<Rightarrow> Inr ((k, r) # rs)))"

section \<open>Tables and boolean-mask indexing\<close>

text \<open>
  The \<^emph>\<open>Gaia\<close> table of the tutorials has the columns that the first notebook writes to
  \<^verbatim>\<open>gaia_results.fits\<close> (its list \<open>cols\<close>). \<open>source_id\<close> is an integer column; it is
  only carried along, never computed with.
\<close>

record gaia_table =
  source_id :: column
  ra :: column
  dec :: column
  parallax :: column
  parallax_error :: column
  pmra :: column
  pmdec :: column
  radial_velocity :: column
  phot_g_mean_mag :: column
  phot_bp_mean_mag :: column
  phot_rp_mean_mag :: column

definition columns :: "gaia_table \<Rightarrow> column list" where
  "columns t =
     [source_id t, ra t, dec t, parallax t, parallax_error t, pmra t, pmdec t,
      radial_velocity t, phot_g_mean_mag t, phot_bp_mean_mag t, phot_rp_mean_mag t]"

text \<open>\<open>a[mask]\<close> for a boolean array \<open>mask\<close>: the entries at the true positions, in order.\<close>

definition select :: "bool list \<Rightarrow> 'a list \<Rightarrow> 'a list" where
  "select m xs = map snd (filter fst (zip m xs))"

definition getitem_bool :: "bool list \<Rightarrow> 'a list \<Rightarrow> error + 'a list" where
  "getitem_bool m xs = (if length m = length xs then Inr (select m xs) else Inl IndexError)"

fun select_column :: "bool list \<Rightarrow> column \<Rightarrow> column" where
  "select_column m (Quantity xs) = Quantity (select m xs)"
| "select_column m (Masked vs) = Masked (select m vs)"

text \<open>
  \<open>table[mask]\<close> indexes every column with the mask and raises when the mask does not have
  the length of the columns. A mask that is itself a masked boolean array is used through
  its underlying values.
\<close>

definition table_getitem :: "bool list \<Rightarrow> gaia_table \<Rightarrow> error + gaia_table" where
  "table_getitem m t =
     (if \<forall>c \<in> set (columns t). nrows c = length m then
        Inr \<lparr> source_id = select_column m (source_id t),
              ra = select_column m (ra t),
              dec = select_column m (dec t),
              parallax = select_column m (parallax t),
              parallax_error = select_column m (parallax_error t),
              pmra = select_column m (pmra t),
              pmdec = select_column m (pmdec t),
              radial_velocity = select_column m (radial_velocity t),
              phot_g_mean_mag = select_column m (phot_g_mean_mag t),
              phot_bp_mean_mag = select_column m (phot_bp_mean_mag t),
              phot_rp_mean_mag = select_column m (phot_rp_mean_mag t) \<rparr>
      else Inl IndexError)"

text \<open>\<open>a[idx]\<close> for an integer array \<open>idx\<close>.\<close>

definition getitem_int :: "nat list \<Rightarrow> 'a list \<Rightarrow> error + 'a list" where
  "getitem_int idx xs =
     (if \<forall>i \<in> set idx. i < length xs then Inr (map (\<lambda>i. xs ! i) idx) else Inl IndexError)"

section \<open>The coordinate library\<close>

text \<open>
  The notebooks call the coordinate library; its code is not theirs. The calls are
  parameters of the model, one source at a time: an array call is the call on every entry.
  \<^item> \<open>Distance\<close>: \<open>Distance(parallax=p)\<close>, a distance in pc, or the library's error;
  \<^item> \<open>SkyCoord\<close>: the coordinate object of one source from \<open>ra\<close>, \<open>dec\<close> and the optional
    \<open>distance\<close>, \<open>pm_ra_cosdec\<close>, \<open>pm_dec\<close>, \<open>radial_velocity\<close> and \<open>obstime\<close>;
  \<^item> \<open>separation_3d\<close>: \<open>c.separation_3d(other)\<close>, in pc;
  \<^item> \<open>apply_space_motion\<close>: \<open>c.apply_space_motion(new_obstime)\<close>;
  \<^item> \<open>match_to_catalog_sky\<close>: for one source, the index of the nearest catalog entry, the
    angular separation and the 3D distance.
\<close>

record ('c, 'e) astropy =
  Distance :: "fl \<Rightarrow> error + fl"
  SkyCoord :: "fl \<Rightarrow> fl \<Rightarrow> fl option \<Rightarrow> fl option \<Rightarrow> fl option \<Rightarrow> fl option \<Rightarrow> string option \<Rightarrow> 'c"
  separation_3d :: "'c \<Rightarrow> 'c \<Rightarrow> fl"
  apply_space_motion :: "'c \<Rightarrow> 'e \<Rightarrow> 'c"
  match_to_catalog_sky :: "'c \<Rightarrow> 'c list \<Rightarrow> nat \<times> fl \<times> fl"

text \<open>An array call raises as soon as one entry does.\<close>

fun traverse :: "('a \<Rightarrow> error + 'b) \<Rightarrow> 'a list \<Rightarrow> error + 'b list" where
  "traverse f [] = Inr []"
| "traverse f (x # xs) =
     (case f x of
        Inl e \<Rightarrow> Inl e
      | Inr y \<Rightarrow> (case traverse f xs of Inl e \<Rightarrow> Inl e | Inr ys \<Rightarrow> Inr (y # ys)))"

definition same_shape :: "nat \<Rightarrow> 'a list option \<Rightarrow> bool" where
  "same_shape n a = (case a of None \<Rightarrow> True | Some xs \<Rightarrow> length xs = n)"

definition SkyCoord_array ::
  "('c, 'e) astropy \<Rightarrow> fl list \<Rightarrow> fl list \<Rightarrow> fl list option \<Rightarrow> fl list option \<Rightarrow>
     fl list option \<Rightarrow> fl list option \<Rightarrow> string option \<Rightarrow> error + 'c list" where
  "SkyCoord_array lib ra_a dec_a distance pm_ra_cosdec pm_dec rv obstime =
     (let n = length ra_a in
      if length dec_a = n \<and> same_shape n distance \<and> same_shape n pm_ra_cosdec
           \<and> same_shape n pm_dec \<and> same_shape n rv then
        Inr (map (\<lambda>i. SkyCoord lib (ra_a ! i) (dec_a ! i)
                        (map_option (\<lambda>a. a ! i) distance)
                        (map_option (\<lambda>a. a ! i) pm_ra_cosdec)
                        (map_option (\<lambda>a. a ! i) pm_dec)
                        (map_option (\<lambda>a. a ! i) rv) obstime) [0..<n])
      else Inl ValueError)"

section \<open>Cross-match notebook: selecting the members of NGC 188\<close>

text \<open>
  \<^verbatim>\<open>
  ngc188_table = QTable.read("gaia_results.fits")
  ngc188_table = ngc188_table[ngc188_table["parallax"] > 0.25 * u.mas]
  \<close>
  Parallaxes are in mas, proper motions in mas/yr, distances in pc.
\<close>

definition parallax_cut :: "gaia_table \<Rightarrow> error + gaia_table" where
  "parallax_cut gaia_results =
     table_getitem (map (\<lambda>p. fgt p (Fin 0.25)) (unmasked (parallax gaia_results))) gaia_results"

text \<open>
  \<^verbatim>\<open>
  ngc188_center_3d = SkyCoord(12.11 * u.deg, 85.26 * u.deg, distance=1.96 * u.kpc,
      pm_ra_cosdec=-2.3087 * u.mas / u.yr, pm_dec=-0.9565 * u.mas / u.yr)
  \<close>
\<close>

definition ngc188_center_3d :: "('c, 'e) astropy \<Rightarrow> 'c" where
  "ngc188_center_3d lib =
     SkyCoord lib (Fin 12.11) (Fin 85.26) (Some (Fin 1960))
       (Some (Fin (-2.3087))) (Some (Fin (-0.9565))) None None"

text \<open>
  \<^verbatim>\<open>
  parallax = ngc188_table["parallax"]
  if hasattr(parallax, "mask"):
      parallax = parallax.filled(np.nan)
  \<close>
\<close>

definition parallax_filled :: "gaia_table \<Rightarrow> error + fl list" where
  "parallax_filled t =
     (if hasattr_mask (parallax t) then filled NaN (parallax t)
      else Inr (unmasked (parallax t)))"

text \<open>
  \<^verbatim>\<open>
  velocity_data = {"pm_ra_cosdec": ngc188_table["pmra"], "pm_dec": ngc188_table["pmdec"],
                   "radial_velocity": ngc188_table["radial_velocity"]}
  \<close>
\<close>

definition velocity_data :: "gaia_table \<Rightarrow> (string \<times> column) list" where
  "velocity_data t =
     [(''pm_ra_cosdec'', pmra t), (''pm_dec'', pmdec t),
      (''radial_velocity'', radial_velocity t)]"

text \<open>
  \<^verbatim>\<open>
  pm_diff = np.sqrt((ngc188_table["pmra"] - ngc188_center_3d.pm_ra_cosdec) ** 2
                    + (ngc188_table["pmdec"] - ngc188_center_3d.pm_dec) ** 2)
  \<close>
  The two attributes of the centre are the values it was built from.
\<close>

definition pm_diff1 :: "fl \<Rightarrow> fl \<Rightarrow> fl" where
  "pm_diff1 a b =
     fsqrt (fadd (fsquare (fsub a (Fin (-2.3087)))) (fsquare (fsub b (Fin (-0.9565)))))"

definition pm_diff :: "gaia_table \<Rightarrow> fl list" where
  "pm_diff t = map2 pm_diff1 (unmasked (pmra t)) (unmasked (pmdec t))"

text \<open>
  \<^verbatim>\<open>ngc188_members_mask = (sep3d < 50 * u.pc) & (pm_diff < 1.5 * u.mas / u.yr)\<close>
\<close>

definition members_mask :: "fl list \<Rightarrow> fl list \<Rightarrow> bool list" where
  "members_mask sep pmd = map2 (\<lambda>s d. flt s (Fin 50) \<and> flt d (Fin 1.5)) sep pmd"

text \<open>The variables bound by the cell.\<close>

record 'c members_vars =
  ngc188_table :: gaia_table
  distance_parallax :: "fl list"
  pm_ra_cosdec_v :: "fl list"
  pm_dec_v :: "fl list"
  radial_velocity_v :: "fl list"
  ngc188_coords_3d :: "'c list"
  sep3d :: "fl list"
  ngc188_members_mask :: "bool list"
  ngc188_members :: gaia_table
  ngc188_members_coords :: "'c list"

text \<open>
  The cell, in the order of its statements. \<open>distance_parallax\<close> is the array the cell
  calls \<open>parallax\<close>, handed to \<open>Distance(parallax=...)\<close>; the three \<open>_v\<close> arrays are the
  values of \<open>velocity_data\<close> after the loop, handed to \<open>SkyCoord\<close> as keyword arguments.
  After the loop \<open>ngc188_table\<close> holds the column objects as the loop left them.
  \<^verbatim>\<open>
  ngc188_coords_3d = SkyCoord(ra=ngc188_table["ra"], dec=ngc188_table["dec"],
      distance=Distance(parallax=parallax), obstime=Time("J2015.5"), **velocity_data)
  sep3d = ngc188_coords_3d.separation_3d(ngc188_center_3d)
  ...
  ngc188_members = ngc188_table[ngc188_members_mask]
  ngc188_members_coords = ngc188_coords_3d[ngc188_members_mask]
  \<close>
\<close>

definition members_cell :: "('c, 'e) astropy \<Rightarrow> gaia_table \<Rightarrow> error + 'c members_vars" where
  "members_cell lib gaia_results =
     (case parallax_cut gaia_results of
        Inl e \<Rightarrow> Inl e
      | Inr t0 \<Rightarrow>
     (case parallax_filled t0 of
        Inl e \<Rightarrow> Inl e
      | Inr par \<Rightarrow>
     (case fill_loop (velocity_data t0) of
        Inl e \<Rightarrow> Inl e
      | Inr rs \<Rightarrow>
     (case (map_of rs ''pm_ra_cosdec'', map_of rs ''pm_dec'', map_of rs ''radial_velocity'') of
        (Some (pmra_c, pm1), Some (pmdec_c, pm2), Some (rv_c, rv)) \<Rightarrow>
          (let t = t0\<lparr>pmra := pmra_c, pmdec := pmdec_c, radial_velocity := rv_c\<rparr> in
           case traverse (Distance lib) par of
             Inl e \<Rightarrow> Inl e
           | Inr dist_a \<Rightarrow>
          (case SkyCoord_array lib (unmasked (ra t)) (unmasked (dec t)) (Some dist_a)
                  (Some pm1) (Some pm2) (Some rv) (Some ''J2015.5'') of
             Inl e \<Rightarrow> Inl e
           | Inr coords \<Rightarrow>
          (let sep = map (\<lambda>c. separation_3d lib c (ngc188_center_3d lib)) coords;
               mask = members_mask sep (pm_diff t)
           in case table_getitem mask t of
                Inl e \<Rightarrow> Inl e
              | Inr members \<Rightarrow>
             (case getitem_bool mask coords of
                Inl e \<Rightarrow> Inl e
              | Inr members_coords \<Rightarrow>
                  Inr \<lparr> ngc188_table = t, distance_parallax = par,
                        pm_ra_cosdec_v = pm1, pm_dec_v = pm2, radial_velocity_v = rv,
                        ngc188_coords_3d = coords, sep3d = sep,
                        ngc188_members_mask = mask, ngc188_members = members,
                        ngc188_members_coords = members_coords \<rparr>))))
      | _ \<Rightarrow> Inl KeyError))))"

section \<open>Cross-match notebook: matching to the 2MASS catalog\<close>

text \<open>The columns of the 2MASS table that the notebook reads.\<close>

record tmass_table =
  RAJ2000 :: column
  DEJ2000 :: column
  Jmag :: column

fun take_column :: "nat list \<Rightarrow> column \<Rightarrow> error + column" where
  "take_column idx (Quantity xs) =
     (case getitem_int idx xs of Inl e \<Rightarrow> Inl e | Inr ys \<Rightarrow> Inr (Quantity ys))"
| "take_column idx (Masked vs) =
     (case getitem_int idx vs of Inl e \<Rightarrow> Inl e | Inr ys \<Rightarrow> Inr (Masked ys))"

record 'c crossmatch_vars =
  tmass_coords :: "'c list"
  ngc188_members_coords_1999 :: "'c list"
  idx_gaia :: "nat list"
  sep2d_gaia :: "fl list"
  Jmag_v :: column
  Gmag :: column
  Bmag :: column

text \<open>
  \<^verbatim>\<open>
  tmass_coords = SkyCoord(tmass_table["RAJ2000"], tmass_table["DEJ2000"])
  ngc188_members_coords_1999 = ngc188_members_coords.apply_space_motion(tmass_epoch)
  idx_gaia, sep2d_gaia, _ = ngc188_members_coords_1999.match_to_catalog_sky(tmass_coords)
  Jmag = tmass_table["Jmag"][idx_gaia]
  Gmag = ngc188_members["phot_g_mean_mag"]
  Bmag = ngc188_members["phot_bp_mean_mag"]
  \<close>
  \<open>tmass_epoch\<close> is the library's \<open>Time\<close> of the table's one observation date.
\<close>

definition crossmatch_cells ::
  "('c, 'e) astropy \<Rightarrow> 'e \<Rightarrow> tmass_table \<Rightarrow> 'c members_vars \<Rightarrow> error + 'c crossmatch_vars" where
  "crossmatch_cells lib tmass_epoch tmass s =
     (case SkyCoord_array lib (unmasked (RAJ2000 tmass)) (unmasked (DEJ2000 tmass))
             None None None None None of
        Inl e \<Rightarrow> Inl e
      | Inr tc \<Rightarrow>
          (let c1999 = map (\<lambda>c. apply_space_motion lib c tmass_epoch) (ngc188_members_coords s);
               matches = map (\<lambda>c. match_to_catalog_sky lib c tc) c1999;
               idx = map fst matches
           in case take_column idx (Jmag tmass) of
                Inl e \<Rightarrow> Inl e
              | Inr j \<Rightarrow>
                  Inr \<lparr> tmass_coords = tc, ngc188_members_coords_1999 = c1999,
                        idx_gaia = idx, sep2d_gaia = map (\<lambda>m. fst (snd m)) matches,
                        Jmag_v = j,
                        Gmag = phot_g_mean_mag (ngc188_members s),
                        Bmag = phot_bp_mean_mag (ngc188_members s) \<rparr>))"

section \<open>First notebook: the catalog query and the distances\<close>

text \<open>
  \<^verbatim>\<open>
  job = Gaia.cone_search_async(ngc188_center, radius=0.5 * u.deg)
  ngc188_table = job.get_results()
  # only keep stars brighter than G=19 magnitude
  ngc188_table = ngc188_table[ngc188_table["phot_g_mean_mag"] < 19 * u.mag]
  \<close>
  What the archive answers is an input of the cell: \<open>response\<close> is the table that
  \<open>job.get_results()\<close> returns, with the columns the notebook goes on to use.
\<close>

definition cone_search_cell :: "gaia_table \<Rightarrow> error + gaia_table" where
  "cone_search_cell response =
     table_getitem (map (\<lambda>g. flt g (Fin 19)) (unmasked (phot_g_mean_mag response))) response"

text \<open>
  \<^verbatim>\<open>
  parallax_snr = ngc188_table["parallax"] / ngc188_table["parallax_error"]
  ngc188_table_3d = ngc188_table[parallax_snr > 10]
  \<close>
\<close>

definition parallax_snr :: "gaia_table \<Rightarrow> fl list" where
  "parallax_snr t = map2 fdiv (unmasked (parallax t)) (unmasked (parallax_error t))"

definition ngc188_table_3d :: "gaia_table \<Rightarrow> error + gaia_table" where
  "ngc188_table_3d t = table_getitem (map (\<lambda>s. fgt s (Fin 10)) (parallax_snr t)) t"

text \<open>
  \<^verbatim>\<open>gaia_dist = Distance(parallax=ngc188_table_3d["parallax"].filled(np.nan))\<close>
  \<open>gaia_dist_parallax\<close> is the argument of the call, \<open>gaia_dist\<close> its result.
\<close>

definition gaia_dist_parallax :: "gaia_table \<Rightarrow> error + fl list" where
  "gaia_dist_parallax t =
     (case ngc188_table_3d t of
        Inl e \<Rightarrow> Inl e
      | Inr t3 \<Rightarrow> filled NaN (parallax t3))"

definition gaia_dist :: "('c, 'e) astropy \<Rightarrow> gaia_table \<Rightarrow> error + fl list" where
  "gaia_dist lib t =
     (case gaia_dist_parallax t of
        Inl e \<Rightarrow> Inl e
      | Inr p \<Rightarrow> traverse (Distance lib) p)"

section \<open>Third notebook: the coordinates of HD 219829\<close>







section \<open>Online and offline paths\<close>

text \<open>
  A notebook is run cell by cell on its variables and on the data files that lie beside
  it. A statement that raises ends its cell: what the cell did before stays, and the
  reader goes on to the next cell. A path is the list of the cells that are run: all of
  them with a network connection, all but the cells that go online without one. What a
  remote service answers is an argument of the cell that asks it.
\<close>

definition run :: "('s \<Rightarrow> 's) list \<Rightarrow> 's \<Rightarrow> 's" where
  "run cells s = fold (\<lambda>cell. cell) cells s"

subsection \<open>First notebook\<close>

text \<open>
  \<open>gaia_results_fits\<close> is the content of \<^verbatim>\<open>gaia_results.fits\<close> (\<open>None\<close>: no such file),
  \<open>ngc188_center_nb1\<close> the position (\<open>ra\<close>, \<open>dec\<close>, in degrees) of the coordinate bound to
  \<open>ngc188_center\<close>, \<open>ngc188_table_nb1\<close> the table bound to \<open>ngc188_table\<close> (\<open>None\<close>: not yet
  bound).
\<close>

record intro_vars =
  gaia_results_fits :: "gaia_table option"
  ngc188_center_nb1 :: "fl \<times> fl"
  ngc188_table_nb1 :: "gaia_table option"

text \<open>
  \<^verbatim>\<open>ngc188_center = SkyCoord(12.11 * u.deg, 85.26 * u.deg)\<close> and, in the next cell,
  \<^verbatim>\<open>ngc188_center = SkyCoord(12.11 * u.deg, 85.26 * u.deg, frame="icrs")\<close>
\<close>

definition center_cell :: "intro_vars \<Rightarrow> intro_vars" where
  "center_cell s = s\<lparr>ngc188_center_nb1 := (Fin 12.11, Fin 85.26)\<rparr>"

text \<open>
  \<^verbatim>\<open>ngc188_center = SkyCoord.from_name("NGC 188")\<close>
  The position is the one the name resolver answers.
\<close>

definition from_name_cell :: "fl \<times> fl \<Rightarrow> intro_vars \<Rightarrow> intro_vars" where
  "from_name_cell resolved s = s\<lparr>ngc188_center_nb1 := resolved\<rparr>"

text \<open>
  The query cell: its first assignment binds the answer, its second the brighter stars
  (when the indexing raises, the first binding stays).
\<close>

definition query_cell :: "gaia_table \<Rightarrow> intro_vars \<Rightarrow> intro_vars" where
  "query_cell response s =
     (case cone_search_cell response of
        Inl e \<Rightarrow> s\<lparr>ngc188_table_nb1 := Some response\<rparr>
      | Inr t \<Rightarrow> s\<lparr>ngc188_table_nb1 := Some t\<rparr>)"

text \<open>
  \<^verbatim>\<open>ngc188_table[cols].write("gaia_results.fits", overwrite=True)\<close>
  The table has the columns \<open>cols\<close>, so the selection keeps all of them; the cell raises
  when \<open>ngc188_table\<close> is not bound.
\<close>

definition write_cell :: "intro_vars \<Rightarrow> intro_vars" where
  "write_cell s =
     (case ngc188_table_nb1 s of
        None \<Rightarrow> s
      | Some t \<Rightarrow> s\<lparr>gaia_results_fits := Some t\<rparr>)"

text \<open>
  \<^verbatim>\<open>ngc188_table = QTable.read("gaia_results.fits")\<close>
  A table read back is the table that was written.
\<close>

definition read_cell :: "intro_vars \<Rightarrow> intro_vars" where
  "read_cell s =
     (case gaia_results_fits s of
        None \<Rightarrow> s
      | Some t \<Rightarrow> s\<lparr>ngc188_table_nb1 := Some t\<rparr>)"

text \<open>
  The cells that bind \<open>ngc188_center\<close> and \<open>ngc188_table\<close>, in the order of the notebook;
  \<open>SkyCoord.from_name\<close> stands in two cells. Offline the cells that go online are left out.
\<close>

definition intro_online :: "fl \<times> fl \<Rightarrow> gaia_table \<Rightarrow> (intro_vars \<Rightarrow> intro_vars) list" where
  "intro_online resolved response =
     [center_cell, center_cell, from_name_cell resolved, query_cell response, write_cell,
      read_cell, from_name_cell resolved]"

definition intro_offline :: "(intro_vars \<Rightarrow> intro_vars) list" where
  "intro_offline = [center_cell, center_cell, write_cell, read_cell]"

subsection \<open>Third notebook\<close>

text \<open>
  \<^verbatim>\<open>
  gaia_tbl = Gaia.query_object(SkyCoord.from_name("HD 219829"), radius=1 * u.arcmin)
  gaia_tbl = QTable.read("HD_219829_query_results.ecsv")
  dss_cutout_filename = download_file(...)
  dss_cutout_filename = "dss_hd219829.fits"
  \<close>
\<close>

record velocities_vars =
  HD_219829_query_results_ecsv :: "gaia_table option"
  gaia_tbl :: "gaia_table option"
  dss_cutout_filename :: "string option"

definition query_object_cell :: "gaia_table \<Rightarrow> velocities_vars \<Rightarrow> velocities_vars" where
  "query_object_cell response s = s\<lparr>gaia_tbl := Some response\<rparr>"

definition read_hd_cell :: "velocities_vars \<Rightarrow> velocities_vars" where
  "read_hd_cell s =
     (case HD_219829_query_results_ecsv s of
        None \<Rightarrow> s
      | Some t \<Rightarrow> s\<lparr>gaia_tbl := Some t\<rparr>)"

definition download_cell :: "string \<Rightarrow> velocities_vars \<Rightarrow> velocities_vars" where
  "download_cell downloaded s = s\<lparr>dss_cutout_filename := Some downloaded\<rparr>"

definition local_cutout_cell :: "velocities_vars \<Rightarrow> velocities_vars" where
  "local_cutout_cell s = s\<lparr>dss_cutout_filename := Some ''dss_hd219829.fits''\<rparr>"

definition velocities_online ::
  "gaia_table \<Rightarrow> string \<Rightarrow> (velocities_vars \<Rightarrow> velocities_vars) list" where
  "velocities_online response downloaded =
     [query_object_cell response, read_hd_cell, download_cell downloaded, local_cutout_cell]"

definition velocities_offline :: "(velocities_vars \<Rightarrow> velocities_vars) list" where
  "velocities_offline = [read_hd_cell, local_cutout_cell]"

subsection \<open>Fourth notebook\<close>

text \<open>
  \<^verbatim>\<open>
  result = v.query_region(ngc188_center_3d, radius=0.5 * u.deg)
  tmass_table = result[0]
  tmass_table = QTable.read("2MASS_results.ecsv")
  \<close>
  \<open>result\<close> is the list of tables that the catalog service answers.
\<close>

record tmass_vars =
  tmass_results_ecsv :: "tmass_table option"
  tmass_table_v :: "tmass_table option"

definition vizier_cell :: "tmass_table list \<Rightarrow> tmass_vars \<Rightarrow> tmass_vars" where
  "vizier_cell result s =
     (case result of
        [] \<Rightarrow> s
      | t # _ \<Rightarrow> s\<lparr>tmass_table_v := Some t\<rparr>)"

definition read_tmass_cell :: "tmass_vars \<Rightarrow> tmass_vars" where
  "read_tmass_cell s =
     (case tmass_results_ecsv s of
        None \<Rightarrow> s
      | Some t \<Rightarrow> s\<lparr>tmass_table_v := Some t\<rparr>)"

definition crossmatch_online :: "tmass_table list \<Rightarrow> (tmass_vars \<Rightarrow> tmass_vars) list" where
  "crossmatch_online result = [vizier_cell result, read_tmass_cell]"

definition crossmatch_offline :: "(tmass_vars \<Rightarrow> tmass_vars) list" where
  "crossmatch_offline = [read_tmass_cell]"

section \<open>The code cells of the four notebooks\<close>

text \<open>
  The statements of every code cell, in order, cell by cell. A simple statement keeps the
  callables it calls, in source order, each by its dotted name (\<open>SkyCoord.from_name\<close>,
  \<open>plt.subplots\<close>), or by \<open>.method\<close> when the receiver is not a plain name
  (\<open>gaia_tbl[...].argmin()\<close> is \<open>.argmin\<close>); a comprehension keeps the calls inside it.
  Operators, subscripts, attribute reads and literals make no call. A compound statement
  keeps the calls of its header and the statements of its body; no \<open>if\<close>, \<open>for\<close> or
  \<open>with\<close> of the notebooks has an \<open>else\<close> branch. \<open>Magic\<close> is a line for the notebook
  front end (\<open>%matplotlib inline\<close>).
\<close>

datatype atom = Call string | ListComp "atom list"

datatype stmt =
    Import
  | Magic
  | Assign "atom list"
  | Expr "atom list"
  | Return "atom list"
  | FunctionDef string "stmt list"
  | ClassDef string "stmt list"
  | For "atom list" "stmt list"
  | While "atom list" "stmt list"
  | If "atom list" "stmt list"
  | With "atom list" "stmt list"
  | Try "stmt list" "stmt list"

text \<open>The first notebook (coordinates introduction).\<close>

definition intro_cells :: "stmt list list" where
  "intro_cells =
     [[Import,
       Magic,
       Import,
       Import,
       Import,
       Import,
       Import,
       Assign []],
      [Assign [Call ''SkyCoord''],
       Expr []],
      [Assign [Call ''SkyCoord''],
       Expr []],
      [Expr [Call ''SkyCoord'']],
      [Expr [Call ''SkyCoord'']],
      [Assign [Call ''SkyCoord.from_name''],
       Expr []],
      [Expr []],
      [Expr []],
      [Expr []],
      [Expr [Call ''type'', Call ''type'']],
      [Expr [Call ''ngc188_center.ra.to'', Call ''ngc188_center.ra.to'', Call ''ngc188_center.ra.to'']],
      [Expr []],
      [Expr [Call ''ngc188_center.ra.to_string'']],
      [Assign [Call ''Gaia.cone_search_async''],
       Assign [Call ''job.get_results''],
       Assign []],
      [Assign [],
       Expr [Call ''.write'']],
      [Assign [Call ''QTable.read'']],
      [Expr [Call ''len'']],
      [Expr []],
      [Expr []],
      [Assign [Call ''SkyCoord''],
       Expr []],
      [Assign [Call ''SkyCoord.from_name'']],
      [Expr [Call ''ngc188_center.to_string'']],
      [Expr [Call ''ngc188_gaia_coords.separation'']],
      [Assign [Call ''SkyCoord'']],
      [Assign [],
       Assign [],
       Expr [Call ''len'']],
      [Expr [Call ''Distance'']],
      [Assign [Call ''Distance'', Call ''.filled'']],
      [Assign [Call ''SkyCoord''],
       Expr []],
      [Assign [Call ''plt.subplots''],
       Assign [Call ''ax.scatter''],
       Assign [Call ''fig.colorbar''],
       Expr [Call ''cb.set_label''],
       Expr [Call ''ax.set_xlabel''],
       Expr [Call ''ax.set_ylabel''],
       Expr [Call ''ax.set_title'']],
      [Assign [Call ''ngc188_coords_3d.separation_3d''],
       Expr []],
      [Assign [],
       Expr [Call ''ngc188_3d_mask.sum'']]]"

text \<open>The second notebook (representations and frame transformations).\<close>

definition transforms_cells :: "stmt list list" where
  "transforms_cells =
     [[Import,
       Import,
       Magic,
       Import,
       Import,
       Import,
       Import,
       Import,
       Import],
      [Assign [Call ''SkyCoord''],
       Expr [Call ''print''],
       Expr [Call ''print'', Call ''c.to_string''],
       Expr [Call ''print'', Call ''c.dec.to_string'']],
      [Expr [Call ''c.represent_as'']],
      [Expr [Call ''c.represent_as'']],
      [Expr [Call ''print'', ListComp [Call ''dir'', Call ''x.endswith'', Call ''x.startswith'']]],
      [Assign [Call ''SkyCoord'']],
      [Expr [Call ''c2.represent_as'']],
      [Expr [Call ''c2.represent_as'']],
      [Assign [Call ''SkyCoord''],
       Expr [Call ''print''],
       Expr []],
      [Assign []],
      [Expr []],
      [Expr []],
      [Assign [Call ''QTable.read'']],
      [Assign [Call ''SkyCoord''],
       Expr [Call ''len'']],
      [Expr []],
      [FunctionDef ''coordinates_aitoff_plot'' [Assign [Call ''plt.subplots'', Call ''dict''], Assign [], Assign [Call ''ax.scatter'', Call ''sph.lon.wrap_at''], FunctionDef ''fmt_func'' [Assign [Call ''coord.Angle'', Call ''.wrap_at''], Return []], Assign [Call ''mpl.ticker.FuncFormatter''], Expr [Call ''ax.xaxis.set_major_formatter''], Expr [Call ''ax.grid''], Assign [Call ''fig.colorbar''], Expr [Call ''cb.set_label''], Return []]],
      [Assign [Call ''coordinates_aitoff_plot''],
       Expr [Call ''ax.set_xlabel''],
       Expr [Call ''ax.set_ylabel'']],
      [Assign [Call ''open_cluster_c.transform_to'', Call ''Galactic'']],
      [Assign []],
      [Expr []],
      [Expr []],
      [Expr []],
      [Assign [Call ''coordinates_aitoff_plot''],
       Expr [Call ''ax.set_xlabel''],
       Expr [Call ''ax.set_ylabel'']],
      [Assign [Call ''EarthLocation.from_geodetic'']],
      [Assign [Call ''EarthLocation.of_address'']],
      [Assign [Call ''EarthLocation.of_site'']],
      [Assign [Call ''Time''],
       Assign [Call ''np.linspace'']],
      [Assign [Call ''AltAz'']],
      [Assign [Call ''.transform_to''],
       Expr []],
      [Expr [Call ''plt.figure''],
       Expr [Call ''plt.plot''],
       Expr [Call ''plt.axhline''],
       Expr [Call ''plt.xlabel''],
       Expr [Call ''plt.ylabel''],
       Expr [Call ''plt.setp'', Call ''plt.gca'', Call ''.get_majorticklabels''],
       Expr [Call ''plt.tight_layout'']],
      [Expr [Call ''len'', Call ''len'']],
      [Assign [Call ''.transform_to'']],
      [Expr [Call ''plt.figure''],
       Expr [Call ''plt.plot''],
       Expr [Call ''plt.axhline''],
       Expr [Call ''plt.xlabel''],
       Expr [Call ''plt.ylabel''],
       Expr [Call ''plt.setp'', Call ''plt.gca'', Call ''.get_majorticklabels''],
       Expr [Call ''plt.tight_layout'']],
      [Assign [Call ''coord.SkyCoord''],
       Expr [Call ''icrs_c.transform_to'', Call ''coord.FK5'']],
      [Expr [Call ''icrs_c.transform_to'', Call ''coord.Galactocentric'']],
      [],
      [],
      []]"

text \<open>The third notebook (velocities and space motion).\<close>

definition velocities_cells :: "stmt list list" where
  "velocities_cells =
     [[Import,
       Import,
       Magic,
       Import,
       Import,
       Import,
       Import,
       Import,
       Import,
       Import,
       Import,
       Import,
       Import],
      [Expr [Call ''SkyCoord'']],
      [Expr [Call ''SkyCoord'', Call ''np.linspace'', Call ''np.linspace'', Call ''np.linspace'', Call ''np.linspace'']],
      [Assign [Call ''SkyCoord''],
       Expr []],
      [Expr []],
      [Expr []],
      [Assign [Call ''velocity_coord.transform_to'', Call ''Galactic''],
       Expr []],
      [Expr []],
      [Expr []],
      [Assign [Call ''SkyCoord''],
       Expr [Call ''test_coord_1.transform_to'', Call ''coord.Galactocentric'']],
      [Assign [Call ''SkyCoord''],
       Expr [Call ''test_coord_2.transform_to'', Call ''coord.Galactocentric'']],
      [Assign [Call ''Gaia.query_object'', Call ''SkyCoord.from_name'']],
      [With [Call ''warnings.catch_warnings''] [Expr [Call ''warnings.simplefilter''], Assign [Call ''QTable.read'']]],
      [Assign [Call ''.argmin''],
       Expr []],
      [Assign [Call ''SkyCoord'', Call ''Distance'', Call ''Time''],
       Expr []],
      [Assign [Call ''download_file'']],
      [Assign []],
      [Assign [Call ''fits.open''],
       Assign [Call ''WCS''],
       Assign [Call ''plt.subplots'', Call ''dict''],
       Expr [Call ''ax.imshow''],
       Expr [Call ''ax.set_xlabel''],
       Expr [Call ''ax.set_ylabel''],
       Expr [Call ''ax.set_autoscale_on''],
       Expr [Call ''ax.scatter'', Call ''ax.get_transform'']],
      [Expr []],
      [With [Call ''warnings.catch_warnings''] [Expr [Call ''warnings.simplefilter''], Assign [Call ''hd219829_coord.apply_space_motion'', Call ''Time'']]],
      [Assign [Call ''plt.subplots'', Call ''dict''],
       Expr [Call ''ax.imshow''],
       Expr [Call ''ax.set_xlabel''],
       Expr [Call ''ax.set_ylabel''],
       Expr [Call ''ax.set_autoscale_on''],
       Expr [Call ''ax.scatter'', Call ''ax.get_transform''],
       Expr [Call ''ax.scatter'', Call ''ax.get_transform'']],
      []]"

text \<open>The fourth notebook (cross-matching), as statements.\<close>

definition crossmatch_src_cells :: "stmt list list" where
  "crossmatch_src_cells =
     [[Import,
       Import,
       Magic,
       Import,
       Import,
       Import,
       Import,
       Import,
       Import],
      [Assign [Call ''QTable.read''],
       Assign [],
       Assign [Call ''SkyCoord''],
       Assign [],
       If [Call ''hasattr''] [Assign [Call ''parallax.filled'']],
       Assign [],
       For [Call ''velocity_data.items''] [If [Call ''hasattr''] [Assign [Call ''v.filled'']], Assign [Call ''np.isnan'']],
       Assign [Call ''SkyCoord'', Call ''Distance'', Call ''Time''],
       Assign [Call ''ngc188_coords_3d.separation_3d''],
       Assign [Call ''np.sqrt''],
       Assign [],
       Assign [],
       Assign [],
       Expr [Call ''len'']],
      [Assign [Call ''Vizier''],
       Assign [],
       Assign [Call ''v.query_region''],
       Assign []],
      [With [Call ''warnings.catch_warnings''] [Expr [Call ''warnings.simplefilter''], Assign [Call ''QTable.read'']]],
      [Expr []],
      [Assign [Call ''SkyCoord''],
       Expr [Call ''len'']],
      [Expr [Call ''np.unique'']],
      [Assign [Call ''Time'', Call ''np.unique'']],
      [Assign [Call ''ngc188_members_coords.apply_space_motion'']],
      [Assign [Call ''ngc188_members_coords_1999.match_to_catalog_sky'']],
      [Expr [Call ''plt.hist'', Call ''np.logspace''],
       Expr [Call ''plt.xlabel''],
       Expr [Call ''plt.xscale''],
       Expr [Call ''plt.yscale''],
       Expr [Call ''plt.tight_layout'']],
      [Expr [Call ''.sum'', Call ''len'']],
      [Assign [],
       Assign [],
       Assign []],
      [Assign [Call ''plt.subplots''],
       Assign [],
       Expr [Call ''ax.scatter''],
       Expr [Call ''ax.set_xlabel''],
       Expr [Call ''ax.set_ylabel''],
       Expr [Call ''ax.set_xlim''],
       Expr [Call ''ax.set_ylim''],
       Assign [],
       Expr [Call ''ax.scatter''],
       Expr [Call ''ax.set_xlabel''],
       Expr [Call ''ax.set_ylabel''],
       Expr [Call ''ax.set_xlim''],
       Expr [Call ''ax.set_ylim''],
       Expr [Call ''fig.tight_layout'']],
      []]"

definition notebooks :: "stmt list list list" where
  "notebooks = [intro_cells, transforms_cells, velocities_cells, crossmatch_src_cells]"

text \<open>The callables a statement calls, those of its body included.\<close>

fun atom_calls :: "atom \<Rightarrow> string list" where
  "atom_calls (Call f) = [f]"
| "atom_calls (ListComp as) = concat (map atom_calls as)"

fun calls :: "stmt \<Rightarrow> string list" where
  "calls Import = []"
| "calls Magic = []"
| "calls (Assign as) = concat (map atom_calls as)"
| "calls (Expr as) = concat (map atom_calls as)"
| "calls (Return as) = concat (map atom_calls as)"
| "calls (FunctionDef _ body) = concat (map calls body)"
| "calls (ClassDef _ body) = concat (map calls body)"
| "calls (For as body) = concat (map atom_calls as) @ concat (map calls body)"
| "calls (While as body) = concat (map atom_calls as) @ concat (map calls body)"
| "calls (If as body) = concat (map atom_calls as) @ concat (map calls body)"
| "calls (With as body) = concat (map atom_calls as) @ concat (map calls body)"
| "calls (Try body handlers) = concat (map calls body) @ concat (map calls handlers)"

definition notebook_calls :: "stmt list list \<Rightarrow> string list" where
  "notebook_calls cells = concat (map calls (concat cells))"

text \<open>
  The constructs a statement is built with, beyond plain calls: definitions, loops,
  branches, comprehensions, context managers, handlers.
\<close>

datatype construct =
    Def string | Class string | Loop | Branch | Comprehension | Context | Handler

fun atom_constructs :: "atom \<Rightarrow> construct list" where
  "atom_constructs (Call _) = []"
| "atom_constructs (ListComp as) = Comprehension # concat (map atom_constructs as)"

fun constructs :: "stmt \<Rightarrow> construct list" where
  "constructs Import = []"
| "constructs Magic = []"
| "constructs (Assign as) = concat (map atom_constructs as)"
| "constructs (Expr as) = concat (map atom_constructs as)"
| "constructs (Return as) = concat (map atom_constructs as)"
| "constructs (FunctionDef name body) = Def name # concat (map constructs body)"
| "constructs (ClassDef name body) = Class name # concat (map constructs body)"
| "constructs (For as body) =
     Loop # concat (map atom_constructs as) @ concat (map constructs body)"
| "constructs (While as body) =
     Loop # concat (map atom_constructs as) @ concat (map constructs body)"
| "constructs (If as body) =
     Branch # concat (map atom_constructs as) @ concat (map constructs body)"
| "constructs (With as body) =
     Context # concat (map atom_constructs as) @ concat (map constructs body)"
| "constructs (Try body handlers) =
     Handler # concat (map constructs body) @ concat (map constructs handlers)"

definition notebook_constructs :: "stmt list list \<Rightarrow> construct list" where
  "notebook_constructs cells = concat (map constructs (concat cells))"

text \<open>
  A construct that the notebook interposes between its inputs and the library calls: a
  function or class of its own, a loop (a comprehension is one) or a branch.
\<close>

fun interposed :: "construct \<Rightarrow> bool" where
  "interposed (Def _) = True"
| "interposed (Class _) = True"
| "interposed Loop = True"
| "interposed Branch = True"
| "interposed Comprehension = True"
| "interposed Context = False"
| "interposed Handler = False"

definition straight_line :: "stmt list list \<Rightarrow> bool" where
  "straight_line cells = (filter interposed (notebook_constructs cells) = [])"

section \<open>Remote services\<close>





section \<open>Notions used in the statements\<close>

text \<open>The positions at which a boolean mask is true, in increasing order.\<close>

definition true_positions :: "bool list \<Rightarrow> nat list" where
  "true_positions m = filter (\<lambda>j. m ! j) [0..<length m]"

text \<open>A column with its missing entries (masked or NaN) set to zero, the others kept.\<close>

definition missing_as_zero :: "column \<Rightarrow> fl list" where
  "missing_as_zero c =
     map (\<lambda>(x, m). if m \<or> isnan x then Fin 0 else x) (zip (unmasked c) (mask_of c))"

text \<open>
  A column object of the table after the missing-data block: a plain array has been
  edited in place, a masked one is as it was.
\<close>

definition in_place :: "column \<Rightarrow> column" where
  "in_place c = (if hasattr_mask c then c else Quantity (missing_as_zero c))"


text \<open>Row \<open>j\<close> of a table: the entry of every column, with its mask flag.\<close>

definition row :: "gaia_table \<Rightarrow> nat \<Rightarrow> (fl \<times> bool) list" where
  "row t j = map (\<lambda>c. (unmasked c ! j, mask_of c ! j)) (columns t)"

section \<open>Concrete inputs\<close>

text \<open>
  A small catalog of three stars; the third is fainter than G = 19 and has a parallax
  below 0.25 mas. The second has no measured proper motion in right ascension (masked)
  and a NaN one in declination, the first no measured radial velocity.
\<close>

definition three_stars :: gaia_table where
  "three_stars =
     \<lparr> source_id = Quantity [Fin 1, Fin 2, Fin 3],
       ra = Quantity [Fin 12, Fin 13, Fin 14],
       dec = Quantity [Fin 85, Fin 85, Fin 85],
       parallax = Masked [(Fin 0.5, False), (Fin 0.6, False), (Fin 0.1, False)],
       parallax_error = Quantity [Fin 0.01, Fin 0.02, Fin 0.02],
       pmra = Masked [(Fin (-2.3087), False), (NaN, True), (Fin 1, False)],
       pmdec = Quantity [Fin (-0.9565), NaN, Fin 1],
       radial_velocity = Masked [(NaN, True), (Fin 5, False), (Fin 1, False)],
       phot_g_mean_mag = Quantity [Fin 15, Fin 16, Fin 20],
       phot_bp_mean_mag = Quantity [Fin 15.5, Fin 16.5, Fin 20.5],
       phot_rp_mean_mag = Quantity [Fin 14.5, Fin 15.5, Fin 19.5] \<rparr>"

text \<open>The same stars, the third one measured brighter than G = 19.\<close>

definition three_stars_brighter :: gaia_table where
  "three_stars_brighter = three_stars\<lparr>phot_g_mean_mag := Quantity [Fin 15, Fin 16, Fin 18]\<rparr>"

text \<open>The first two of the three stars: what the query cell keeps of \<open>three_stars\<close>.\<close>

definition two_stars :: gaia_table where
  "two_stars =
     \<lparr> source_id = Quantity [Fin 1, Fin 2],
       ra = Quantity [Fin 12, Fin 13],
       dec = Quantity [Fin 85, Fin 85],
       parallax = Masked [(Fin 0.5, False), (Fin 0.6, False)],
       parallax_error = Quantity [Fin 0.01, Fin 0.02],
       pmra = Masked [(Fin (-2.3087), False), (NaN, True)],
       pmdec = Quantity [Fin (-0.9565), NaN],
       radial_velocity = Masked [(NaN, True), (Fin 5, False)],
       phot_g_mean_mag = Quantity [Fin 15, Fin 16],
       phot_bp_mean_mag = Quantity [Fin 15.5, Fin 16.5],
       phot_rp_mean_mag = Quantity [Fin 14.5, Fin 15.5] \<rparr>"

text \<open>Two stars with plain columns; the radial velocity of the second is infinite.\<close>

definition infinite_velocity :: gaia_table where
  "infinite_velocity =
     two_stars\<lparr>pmra := Quantity [Fin 1, Fin 2], radial_velocity := Quantity [Fin 5, PInf]\<rparr>"



definition two_sources :: tmass_table where
  "two_sources =
     \<lparr> RAJ2000 = Quantity [Fin 12, Fin 13],
       DEJ2000 = Quantity [Fin 85, Fin 85],
       Jmag = Quantity [Fin 13, Fin 14] \<rparr>"

definition other_sources :: tmass_table where
  "other_sources = two_sources\<lparr>Jmag := Quantity [Fin 11, Fin 12]\<rparr>"

text \<open>
  A stand-in for the library, to run the cells on the concrete inputs: a coordinate is
  its position, a distance is 1000 / parallax and raises on a negative parallax, every
  separation is 0 pc, space motion moves nothing and every source matches entry 0.
\<close>

definition stand_in :: "(fl \<times> fl, unit) astropy" where
  "stand_in =
     \<lparr> Distance = (\<lambda>p. if flt p (Fin 0) then Inl ValueError else Inr (fdiv (Fin 1000) p)),
       SkyCoord = (\<lambda>r d _ _ _ _ _. (r, d)),
       separation_3d = (\<lambda>_ _. Fin 0),
       apply_space_motion = (\<lambda>c _. c),
       match_to_catalog_sky = (\<lambda>_ _. (0, Fin 0, Fin 0)) \<rparr>"

text \<open>The variables of the first notebook before its first cell, with the snapshot file.\<close>

definition with_snapshot :: intro_vars where
  "with_snapshot =
     \<lparr> gaia_results_fits = Some two_stars, ngc188_center_nb1 = (Fin 0, Fin 0),
       ngc188_table_nb1 = None \<rparr>"

section \<open>Properties of the missing-data block\<close>

lemma fill_velocity_total: "\<exists>c a. fill_velocity v = Inr (c, a)"
  by (cases v) (simp_all add: fill_velocity_def Let_def)

lemma fill_velocity_values:
  "fill_velocity v = Inr (c, a) \<Longrightarrow>
     a = map (\<lambda>(x, m). if m \<or> isnan x then Fin 0 else x) (zip (unmasked v) (mask_of v))"
proof (cases v)
  case (Quantity xs)
  assume "fill_velocity v = Inr (c, a)"
  with Quantity have "a = set_where_isnan (Fin 0) xs"
    by (simp add: fill_velocity_def Let_def)
  also have "\<dots> = map (\<lambda>(x, m). if m \<or> isnan x then Fin 0 else x) (zip xs (map (\<lambda>_. False) xs))"
    by (induction xs) (simp_all add: set_where_isnan_def)
  finally show ?thesis using Quantity by simp
next
  case (Masked vs)
  assume "fill_velocity v = Inr (c, a)"
  with Masked have "a = set_where_isnan (Fin 0) (map (\<lambda>(x, m). if m then Fin 0 else x) vs)"
    by (simp add: fill_velocity_def)
  also have "\<dots> = map (\<lambda>(x, m). if m \<or> isnan x then Fin 0 else x) (zip (map fst vs) (map snd vs))"
    by (induction vs) (auto simp: set_where_isnan_def)
  finally show ?thesis using Masked by simp
qed

lemma fill_loop_total: "\<exists>rs. fill_loop items = Inr rs"
proof (induction items)
  case Nil
  show ?case by simp
next
  case (Cons kv items)
  obtain k v where kv: "kv = (k, v)" by (cases kv)
  obtain c a where "fill_velocity v = Inr (c, a)" using fill_velocity_total by blast
  with Cons kv show ?case by auto
qed

section \<open>Boolean-mask indexing\<close>

lemma zip_as_upt: "length m = length xs \<Longrightarrow> zip m xs = map (\<lambda>j. (m ! j, xs ! j)) [0..<length m]"
  by (rule nth_equalityI) simp_all

lemma select_positions:
  assumes "length m = length xs"
  shows "select m xs = map (\<lambda>j. xs ! j) (true_positions m)"
proof -
  have "filter fst (zip m xs) = map (\<lambda>j. (m ! j, xs ! j)) (true_positions m)"
    unfolding true_positions_def zip_as_upt[OF assms] filter_map by (simp add: comp_def)
  then show ?thesis by (simp add: select_def comp_def)
qed

lemma true_positions_bound: "j \<in> set (true_positions m) \<Longrightarrow> j < length m"
  by (simp add: true_positions_def)

lemma select_map: "select m (map f xs) = map f (select m xs)"
  by (simp add: select_def zip_map2 filter_map comp_def case_prod_unfold)

lemma unmasked_select_column: "unmasked (select_column m c) = select m (unmasked c)"
  by (cases c) (simp_all add: select_map)

lemma mask_of_select_column:
  "nrows c = length m \<Longrightarrow> mask_of (select_column m c) = select m (mask_of c)"
  by (cases c) (simp_all add: select_map nrows_def select_positions)

lemma length_mask_of: "length (mask_of c) = nrows c"
  by (cases c) (simp_all add: nrows_def)

lemma nrows_select_column:
  "nrows c = length m \<Longrightarrow> nrows (select_column m c) = length (true_positions m)"
  by (simp add: nrows_def unmasked_select_column select_positions)

lemma table_getitem_columns:
  "table_getitem m t = Inr t' \<Longrightarrow> columns t' = map (select_column m) (columns t)"
  by (auto simp: table_getitem_def columns_def split: if_splits)

lemma table_getitem_nrows:
  "table_getitem m t = Inr t' \<Longrightarrow> c \<in> set (columns t) \<Longrightarrow> nrows c = length m"
  by (auto simp: table_getitem_def split: if_splits)

lemma getitem_bool_Inr:
  "getitem_bool m xs = Inr ys \<Longrightarrow> length m = length xs \<and> ys = select m xs"
  by (auto simp: getitem_bool_def split: if_splits)

lemma velocity_loop:
  assumes "fill_loop (velocity_data t) = Inr rs"
  shows "\<exists>c1 a1 c2 a2 c3 a3.
           rs = [(''pm_ra_cosdec'', c1, a1), (''pm_dec'', c2, a2), (''radial_velocity'', c3, a3)]
         \<and> fill_velocity (pmra t) = Inr (c1, a1)
         \<and> fill_velocity (pmdec t) = Inr (c2, a2)
         \<and> fill_velocity (radial_velocity t) = Inr (c3, a3)"
  using assms by (auto simp: velocity_data_def split: sum.splits)

lemma members_cell_Inr:
  assumes "members_cell lib g = Inr s"
  shows "\<exists>t0 c1 c2 c3 dist_a.
      parallax_cut g = Inr t0
    \<and> parallax_filled t0 = Inr (distance_parallax s)
    \<and> fill_velocity (pmra t0) = Inr (c1, pm_ra_cosdec_v s)
    \<and> fill_velocity (pmdec t0) = Inr (c2, pm_dec_v s)
    \<and> fill_velocity (radial_velocity t0) = Inr (c3, radial_velocity_v s)
    \<and> ngc188_table s = t0\<lparr>pmra := c1, pmdec := c2, radial_velocity := c3\<rparr>
    \<and> traverse (Distance lib) (distance_parallax s) = Inr dist_a
    \<and> SkyCoord_array lib (unmasked (ra t0)) (unmasked (dec t0)) (Some dist_a)
         (Some (pm_ra_cosdec_v s)) (Some (pm_dec_v s)) (Some (radial_velocity_v s))
         (Some ''J2015.5'') = Inr (ngc188_coords_3d s)
    \<and> sep3d s = map (\<lambda>c. separation_3d lib c (ngc188_center_3d lib)) (ngc188_coords_3d s)
    \<and> ngc188_members_mask s = members_mask (sep3d s) (pm_diff (ngc188_table s))
    \<and> table_getitem (ngc188_members_mask s) (ngc188_table s) = Inr (ngc188_members s)
    \<and> getitem_bool (ngc188_members_mask s) (ngc188_coords_3d s) = Inr (ngc188_members_coords s)"
proof -
  from assms obtain t0 where t0: "parallax_cut g = Inr t0"
    by (auto simp: members_cell_def split: sum.splits)
  from assms t0 obtain par where par: "parallax_filled t0 = Inr par"
    by (auto simp: members_cell_def split: sum.splits)
  from assms t0 par obtain rs where rs: "fill_loop (velocity_data t0) = Inr rs"
    by (auto simp: members_cell_def split: sum.splits)
  from velocity_loop[OF rs] obtain c1 a1 c2 a2 c3 a3 where
    rs_eq: "rs = [(''pm_ra_cosdec'', c1, a1), (''pm_dec'', c2, a2), (''radial_velocity'', c3, a3)]"
    and f1: "fill_velocity (pmra t0) = Inr (c1, a1)"
    and f2: "fill_velocity (pmdec t0) = Inr (c2, a2)"
    and f3: "fill_velocity (radial_velocity t0) = Inr (c3, a3)"
    by blast
  show ?thesis
    using assms t0 par rs f1 f2 f3 unfolding rs_eq members_cell_def
    by (auto simp: Let_def split: sum.splits)
qed



lemma SkyCoord_array_Inr:
  assumes "SkyCoord_array lib r d (Some ds) (Some p1) (Some p2) (Some rv) ob = Inr cs"
  shows "length cs = length r \<and> length d = length r \<and> length ds = length r
       \<and> length p1 = length r \<and> length p2 = length r \<and> length rv = length r
       \<and> (\<forall>j < length r. cs ! j = SkyCoord lib (r ! j) (d ! j) (Some (ds ! j)) (Some (p1 ! j))
               (Some (p2 ! j)) (Some (rv ! j)) ob)"
  using assms by (auto simp: SkyCoord_array_def same_shape_def Let_def split: if_splits)

lemma traverse_Inr:
  "traverse f xs = Inr ys \<Longrightarrow> length ys = length xs \<and> (\<forall>j < length xs. f (xs ! j) = Inr (ys ! j))"
proof (induction xs arbitrary: ys)
  case Nil
  then show ?case by simp
next
  case (Cons x xs)
  then obtain y ys' where y: "f x = Inr y" and ys': "traverse f xs = Inr ys'" and eq: "ys = y # ys'"
    by (auto split: sum.splits)
  from Cons.IH[OF ys'] y eq show ?case
    by (auto simp: nth_Cons split: nat.splits)
qed

lemma missing_as_zero_no_nan: "x \<in> set (missing_as_zero c) \<Longrightarrow> \<not> isnan x"
  by (auto simp: missing_as_zero_def split: if_splits)

lemma row_select:
  assumes "table_getitem m t = Inr t'" and "i < length (true_positions m)"
  shows "row t' i = row t (true_positions m ! i)"
proof -
  have cols: "columns t' = map (select_column m) (columns t)"
    using assms(1) by (rule table_getitem_columns)
  have "(unmasked (select_column m c) ! i, mask_of (select_column m c) ! i)
          = (unmasked c ! (true_positions m ! i), mask_of c ! (true_positions m ! i))"
    if "c \<in> set (columns t)" for c
  proof -
    have n: "nrows c = length m" using assms(1) that by (rule table_getitem_nrows)
    then have "length m = length (unmasked c)" and "length m = length (mask_of c)"
      by (simp_all add: nrows_def length_mask_of)
    then show ?thesis
      using assms(2) n by (simp add: unmasked_select_column mask_of_select_column select_positions)
  qed
  then show ?thesis by (simp add: row_def cols)
qed

section \<open>The proper-motion distance\<close>



section \<open>Missing values and filters\<close>

lemma fill_velocity_in_place: "fill_velocity v = Inr (c, a) \<Longrightarrow> c = in_place v"
  by (cases v) (auto simp: fill_velocity_def in_place_def missing_as_zero_def
        set_where_isnan_def Let_def zip_map2 zip_same_conv_map comp_def)

lemma fill_velocity_missing_as_zero:
  "fill_velocity v = Inr (c, a) \<Longrightarrow> a = missing_as_zero v"
  unfolding missing_as_zero_def by (rule fill_velocity_values)








section \<open>Concrete runs\<close>

lemmas cell_defs = members_cell_def parallax_cut_def table_getitem_def columns_def nrows_def
  select_def getitem_bool_def parallax_filled_def velocity_data_def fill_velocity_def
  set_where_isnan_def SkyCoord_array_def same_shape_def pm_diff_def pm_diff1_def
  members_mask_def fsub_def fgt_def ngc188_center_3d_def Let_def

lemma three_stars_run:
  "\<exists>s. members_cell stand_in three_stars = Inr s
     \<and> ngc188_members_mask s = [True, False]
     \<and> ngc188_members_coords s = [(Fin 12, Fin 85)]
     \<and> distance_parallax s = [Fin 0.5, Fin 0.6]
     \<and> pm_ra_cosdec_v s = [Fin (-2.3087), Fin 0]
     \<and> pm_dec_v s = [Fin (-0.9565), Fin 0]
     \<and> radial_velocity_v s = [Fin 0, Fin 5]
     \<and> unmasked (pmra (ngc188_table s)) = [Fin (-2.3087), NaN]
     \<and> unmasked (pmdec (ngc188_table s)) = [Fin (-0.9565), Fin 0]"
  by (simp add: cell_defs three_stars_def stand_in_def)

lemma three_stars_cut: "parallax_cut three_stars = Inr two_stars"
  by (simp add: cell_defs three_stars_def two_stars_def)

lemma crossmatch_stand_in: "\<exists>x. crossmatch_cells stand_in () two_sources s = Inr x"
  by (simp add: crossmatch_cells_def SkyCoord_array_def same_shape_def two_sources_def
        stand_in_def getitem_int_def Let_def)


lemma three_stars_query: "cone_search_cell three_stars = Inr two_stars"
  by (simp add: cone_search_cell_def cell_defs three_stars_def two_stars_def)

lemmas intro_path_defs = run_def intro_online_def intro_offline_def center_cell_def
  from_name_cell_def query_cell_def write_cell_def read_cell_def

lemmas velocities_path_defs = run_def velocities_online_def velocities_offline_def
  query_object_cell_def read_hd_cell_def download_cell_def local_cutout_cell_def

lemmas tmass_path_defs = run_def crossmatch_online_def crossmatch_offline_def
  vizier_cell_def read_tmass_cell_def

section \<open>Structure of the notebooks\<close>

text \<open>
  Claim C3, as stated: every notebook is a straight-line sequence of library calls, with
  no function, loop or branch of its own. It fails: the second notebook defines the
  function \<open>coordinates_aitoff_plot\<close> and has a comprehension, the fourth has a \<open>for\<close> loop
  and two \<open>if\<close> statements.
\<close>

theorem notebooks_not_straight_line:
  "\<not> straight_line transforms_cells \<and> \<not> straight_line crossmatch_src_cells"
  by (simp add: straight_line_def notebook_constructs_def transforms_cells_def
        crossmatch_src_cells_def)

text \<open>
  Claim C3, amended: the notebooks define no class; the first and the third notebook are
  straight-line sequences of calls (the third with two \<open>with\<close> blocks). The second notebook
  has one list comprehension and defines \<open>coordinates_aitoff_plot\<close>, with a nested
  \<open>fmt_func\<close>, which two of its cells call; the fourth has one \<open>if\<close>, one \<open>for\<close> loop with
  an \<open>if\<close> inside, and one \<open>with\<close> block. These are all the constructs beyond plain
  calls.
\<close>

theorem notebook_constructs_listed:
  "notebook_constructs intro_cells = []
   \<and> notebook_constructs transforms_cells
       = [Comprehension, Def ''coordinates_aitoff_plot'', Def ''fmt_func'']
   \<and> notebook_constructs velocities_cells = [Context, Context]
   \<and> notebook_constructs crossmatch_src_cells = [Branch, Loop, Branch, Context]
   \<and> count_list (notebook_calls transforms_cells) ''coordinates_aitoff_plot'' = 2"
proof -
  have 1: "notebook_constructs intro_cells = []"
    by (simp add: notebook_constructs_def intro_cells_def)
  have 2: "notebook_constructs transforms_cells
             = [Comprehension, Def ''coordinates_aitoff_plot'', Def ''fmt_func'']"
    by (simp add: notebook_constructs_def transforms_cells_def)
  have 3: "notebook_constructs velocities_cells = [Context, Context]"
    by (simp add: notebook_constructs_def velocities_cells_def)
  have 4: "notebook_constructs crossmatch_src_cells = [Branch, Loop, Branch, Context]"
    by (simp add: notebook_constructs_def crossmatch_src_cells_def)
  have 5: "count_list (notebook_calls transforms_cells) ''coordinates_aitoff_plot'' = 2"
    by (simp add: notebook_calls_def transforms_cells_def)
  from 1 2 3 4 5 show ?thesis by simp
qed

text \<open>
  The list at work: the first and third notebook are straight-line, and six constructs of
  the four notebooks are functions, loops or branches.
\<close>

theorem notebook_constructs_listed_witness:
  "straight_line intro_cells \<and> straight_line velocities_cells
   \<and> length (filter interposed (concat (map notebook_constructs notebooks))) = 6"
  using notebook_constructs_listed by (simp add: straight_line_def notebooks_def)

section \<open>Who computes what\<close>





section \<open>Snapshots and the network\<close>

text \<open>
  Claim C5, as stated: every later computation gives the same values offline as online
  with the archived responses. It fails in the first notebook: with the archived catalog
  answer and its snapshot in place, \<open>ngc188_center\<close> is the position the name resolver
  answers on the online path and the hand-entered one offline, and the later cells
  (\<open>ngc188_center.ra\<close>, \<open>separation(ngc188_center)\<close>) read it.
\<close>

theorem offline_centre_differs:
  "ngc188_table_nb1 with_snapshot = None
   \<and> gaia_results_fits with_snapshot = Some two_stars
   \<and> cone_search_cell three_stars = Inr two_stars
   \<and> ngc188_center_nb1 (run (intro_online (Fin 11.8, Fin 85.24) three_stars) with_snapshot)
       = (Fin 11.8, Fin 85.24)
   \<and> ngc188_center_nb1 (run intro_offline with_snapshot) = (Fin 12.11, Fin 85.26)
   \<and> (Fin 11.8, Fin 85.24) \<noteq> (Fin 12.11, Fin 85.26)"
  using three_stars_query by (simp add: intro_path_defs with_snapshot_def split: option.splits)

text \<open>
  Claim C5, amended: every remote catalog query is followed by a read of a local
  snapshot that replaces the table the query bound. In a fresh session of the first
  notebook, with the snapshot being what the query cell makes of the archived answer, the
  table and the file are the same on both paths; in the third and fourth notebook the
  variables are the same on both paths whatever the services answer. (The centre resolved
  by \<open>SkyCoord.from_name\<close> has no snapshot.)
\<close>

theorem snapshot_tables_agree:
  assumes fresh: "ngc188_table_nb1 s1 = None"
      and snapshot: "gaia_results_fits s1 = Some a"
      and archived: "cone_search_cell response = Inr a"
      and hd: "HD_219829_query_results_ecsv s3 = Some h"
      and tm: "tmass_results_ecsv s4 = Some m"
  shows "ngc188_table_nb1 (run (intro_online resolved response) s1)
           = ngc188_table_nb1 (run intro_offline s1)
       \<and> gaia_results_fits (run (intro_online resolved response) s1)
           = gaia_results_fits (run intro_offline s1)
       \<and> run (velocities_online answer downloaded) s3 = run velocities_offline s3
       \<and> run (crossmatch_online result) s4 = run crossmatch_offline s4"
proof -
  have one: "ngc188_table_nb1 (run (intro_online resolved response) s1) = Some a"
    "ngc188_table_nb1 (run intro_offline s1) = Some a"
    "gaia_results_fits (run (intro_online resolved response) s1) = Some a"
    "gaia_results_fits (run intro_offline s1) = Some a"
    using fresh snapshot archived by (simp_all add: intro_path_defs)
  have three: "run (velocities_online answer downloaded) s3 = run velocities_offline s3"
    using hd by (simp add: velocities_path_defs)
  have four: "run (crossmatch_online result) s4 = run crossmatch_offline s4"
    using tm by (cases result) (simp_all add: tmass_path_defs)
  from one three four show ?thesis by simp
qed

text \<open>
  With the two-star snapshot of the three-star answer.
\<close>

theorem snapshot_tables_agree_witness:
  "ngc188_table_nb1 with_snapshot = None
   \<and> gaia_results_fits with_snapshot = Some two_stars
   \<and> cone_search_cell three_stars = Inr two_stars
   \<and> ngc188_table_nb1 (run (intro_online (Fin 11.8, Fin 85.24) three_stars) with_snapshot)
       = ngc188_table_nb1 (run intro_offline with_snapshot)
   \<and> run (crossmatch_online [other_sources])
         \<lparr>tmass_results_ecsv = Some two_sources, tmass_table_v = None\<rparr>
       = run crossmatch_offline \<lparr>tmass_results_ecsv = Some two_sources, tmass_table_v = None\<rparr>
   \<and> run (velocities_online three_stars ''cached'')
         \<lparr>HD_219829_query_results_ecsv = Some two_stars, gaia_tbl = None,
          dss_cutout_filename = None\<rparr>
       = run velocities_offline
         \<lparr>HD_219829_query_results_ecsv = Some two_stars, gaia_tbl = None,
          dss_cutout_filename = None\<rparr>"
proof -
  have f: "ngc188_table_nb1 with_snapshot = None"
    and g: "gaia_results_fits with_snapshot = Some two_stars"
    by (simp_all add: with_snapshot_def)
  have h: "HD_219829_query_results_ecsv
             \<lparr>HD_219829_query_results_ecsv = Some two_stars, gaia_tbl = None,
              dss_cutout_filename = None\<rparr> = Some two_stars"
    and t: "tmass_results_ecsv \<lparr>tmass_results_ecsv = Some two_sources, tmass_table_v = None\<rparr>
              = Some two_sources"
    by simp_all
  from snapshot_tables_agree[OF f g three_stars_query h t,
      of "(Fin 11.8, Fin 85.24)" three_stars "''cached''" "[other_sources]"]
  show ?thesis using f g three_stars_query by simp
qed




text \<open>
  Claim C7: the results of the archive-query cells differ between two runs in which the
  services answer differently, with the same local files. Whenever the two answers of the
  \<^emph>\<open>Gaia\<close> archive differ in the stars that the query cell keeps, the table bound by the
  cell, the table bound at the end of the online path and the file written all differ;
  whenever the two answers of VizieR differ in their first table, so does \<open>tmass_table\<close>
  after the query cell.
\<close>

theorem query_results_depend_on_answer:
  assumes kept1: "cone_search_cell response1 = Inr t1"
      and kept2: "cone_search_cell response2 = Inr t2"
      and differ: "t1 \<noteq> t2"
      and first1: "result1 = a1 # rest1"
      and first2: "result2 = a2 # rest2"
      and differ': "a1 \<noteq> a2"
  shows "ngc188_table_nb1 (query_cell response1 s) \<noteq> ngc188_table_nb1 (query_cell response2 s)
       \<and> ngc188_table_nb1 (run (intro_online resolved response1) s)
           \<noteq> ngc188_table_nb1 (run (intro_online resolved response2) s)
       \<and> gaia_results_fits (run (intro_online resolved response1) s)
           \<noteq> gaia_results_fits (run (intro_online resolved response2) s)
       \<and> tmass_table_v (vizier_cell result1 v) \<noteq> tmass_table_v (vizier_cell result2 v)"
  using assms by (simp add: intro_path_defs tmass_path_defs)

text \<open>
  Two answers that differ in the brightness of one star, and two that differ in the
  magnitudes of the 2MASS sources.
\<close>

theorem query_results_depend_on_answer_witness:
  "cone_search_cell three_stars = Inr two_stars
   \<and> cone_search_cell three_stars_brighter = Inr three_stars_brighter
   \<and> two_stars \<noteq> three_stars_brighter
   \<and> two_sources \<noteq> other_sources
   \<and> ngc188_table_nb1 (run (intro_online (Fin 11.8, Fin 85.24) three_stars) with_snapshot)
       \<noteq> ngc188_table_nb1 (run (intro_online (Fin 11.8, Fin 85.24) three_stars_brighter) with_snapshot)
   \<and> tmass_table_v (vizier_cell [two_sources] \<lparr>tmass_results_ecsv = None, tmass_table_v = None\<rparr>)
       \<noteq> tmass_table_v (vizier_cell [other_sources] \<lparr>tmass_results_ecsv = None, tmass_table_v = None\<rparr>)"
proof -
  have b: "cone_search_cell three_stars_brighter = Inr three_stars_brighter"
    by (simp add: cone_search_cell_def cell_defs three_stars_brighter_def three_stars_def)
  have ne: "two_stars \<noteq> three_stars_brighter"
    by (simp add: two_stars_def three_stars_brighter_def three_stars_def)
  have t: "two_sources \<noteq> other_sources"
    by (simp add: two_sources_def other_sources_def)
  from query_results_depend_on_answer[OF three_stars_query b ne refl refl t]
  show ?thesis using three_stars_query b ne t by blast
qed

section \<open>Parallaxes handed to Distance\<close>





section \<open>Missing velocities\<close>

text \<open>
  Claim C9, as stated: after the missing-data block every proper motion and radial
  velocity is finite. It fails: an infinite radial velocity is neither masked nor NaN and
  stays as it is.
\<close>

theorem infinite_velocity_kept:
  "parallax_cut infinite_velocity = Inr infinite_velocity
   \<and> fill_loop (velocity_data infinite_velocity)
       = Inr [(''pm_ra_cosdec'', Quantity [Fin 1, Fin 2], [Fin 1, Fin 2]),
              (''pm_dec'', Quantity [Fin (-0.9565), Fin 0], [Fin (-0.9565), Fin 0]),
              (''radial_velocity'', Quantity [Fin 5, PInf], [Fin 5, PInf])]
   \<and> \<not> isfinite PInf"
  by (simp add: cell_defs infinite_velocity_def two_stars_def)

text \<open>
  Claim C9, amended: the missing-data block never raises; after it each of the three
  velocity arrays is the column with every masked and every NaN entry replaced by exactly
  0.0 and every other entry unchanged, so none is NaN; and these are the values each
  coordinate of \<open>ngc188_coords_3d\<close> is built with, next to the position of its row and
  the library's distance for the parallax of its row. In the table itself a plain column
  has been edited in place and a masked column is as it was.
\<close>

theorem missing_velocities_zeroed:
  assumes cut: "parallax_cut g = Inr t0"
      and run: "members_cell lib g = Inr s"
  shows "(\<exists>rs. fill_loop (velocity_data t0) = Inr rs)
       \<and> pm_ra_cosdec_v s = missing_as_zero (pmra t0)
       \<and> pm_dec_v s = missing_as_zero (pmdec t0)
       \<and> radial_velocity_v s = missing_as_zero (radial_velocity t0)
       \<and> (\<forall>x \<in> set (pm_ra_cosdec_v s) \<union> set (pm_dec_v s) \<union> set (radial_velocity_v s).
             \<not> isnan x)
       \<and> ngc188_table s
           = t0\<lparr>pmra := in_place (pmra t0), pmdec := in_place (pmdec t0),
                radial_velocity := in_place (radial_velocity t0)\<rparr>
       \<and> (\<forall>j < length (ngc188_coords_3d s). \<exists>d.
             Distance lib (distance_parallax s ! j) = Inr d
           \<and> ngc188_coords_3d s ! j
               = SkyCoord lib (unmasked (ra t0) ! j) (unmasked (dec t0) ! j) (Some d)
                   (Some (missing_as_zero (pmra t0) ! j))
                   (Some (missing_as_zero (pmdec t0) ! j))
                   (Some (missing_as_zero (radial_velocity t0) ! j)) (Some ''J2015.5''))"
proof -
  from members_cell_Inr[OF run] cut obtain c1 c2 c3 dist_a where
    f1: "fill_velocity (pmra t0) = Inr (c1, pm_ra_cosdec_v s)" and
    f2: "fill_velocity (pmdec t0) = Inr (c2, pm_dec_v s)" and
    f3: "fill_velocity (radial_velocity t0) = Inr (c3, radial_velocity_v s)" and
    tbl: "ngc188_table s = t0\<lparr>pmra := c1, pmdec := c2, radial_velocity := c3\<rparr>" and
    ds: "traverse (Distance lib) (distance_parallax s) = Inr dist_a" and
    sc: "SkyCoord_array lib (unmasked (ra t0)) (unmasked (dec t0)) (Some dist_a)
           (Some (pm_ra_cosdec_v s)) (Some (pm_dec_v s)) (Some (radial_velocity_v s))
           (Some ''J2015.5'') = Inr (ngc188_coords_3d s)"
    by auto
  note z = fill_velocity_missing_as_zero[OF f1] fill_velocity_missing_as_zero[OF f2]
    fill_velocity_missing_as_zero[OF f3]
  have nonan: "\<forall>x \<in> set (pm_ra_cosdec_v s) \<union> set (pm_dec_v s) \<union> set (radial_velocity_v s).
                 \<not> isnan x"
    using z missing_as_zero_no_nan by auto
  have coords: "\<forall>j < length (ngc188_coords_3d s). \<exists>d.
             Distance lib (distance_parallax s ! j) = Inr d
           \<and> ngc188_coords_3d s ! j
               = SkyCoord lib (unmasked (ra t0) ! j) (unmasked (dec t0) ! j) (Some d)
                   (Some (missing_as_zero (pmra t0) ! j))
                   (Some (missing_as_zero (pmdec t0) ! j))
                   (Some (missing_as_zero (radial_velocity t0) ! j)) (Some ''J2015.5'')"
    using SkyCoord_array_Inr[OF sc] traverse_Inr[OF ds] z by auto
  have cols: "c1 = in_place (pmra t0)" "c2 = in_place (pmdec t0)"
    "c3 = in_place (radial_velocity t0)"
    using f1 f2 f3 by (simp_all add: fill_velocity_in_place)
  show ?thesis using fill_loop_total z nonan coords tbl cols by blast
qed

text \<open>
  On the three stars: the unmeasured proper motion and radial velocity are zero.
\<close>

theorem missing_velocities_zeroed_witness:
  "\<exists>s. parallax_cut three_stars = Inr two_stars
     \<and> members_cell stand_in three_stars = Inr s
     \<and> pm_ra_cosdec_v s = missing_as_zero (pmra two_stars)
     \<and> pm_ra_cosdec_v s = [Fin (-2.3087), Fin 0]
     \<and> radial_velocity_v s = [Fin 0, Fin 5]"
proof -
  from three_stars_run obtain s where run: "members_cell stand_in three_stars = Inr s"
    and v: "pm_ra_cosdec_v s = [Fin (-2.3087), Fin 0]" "radial_velocity_v s = [Fin 0, Fin 5]"
    by blast
  from missing_velocities_zeroed[OF three_stars_cut run] run v three_stars_cut
  show ?thesis by blast
qed

section \<open>Members and their coordinates\<close>

text \<open>
  Claim C10: the table and the coordinate array have one length, and so have
  \<open>ngc188_members\<close> and \<open>ngc188_members_coords\<close>; entry \<open>i\<close> of both is the source at the
  \<open>i\<close>-th true position of the mask: the member row is that row of the table, the member
  coordinate is that coordinate, built from the right ascension and declination of the
  member row. \<open>Jmag\<close>, indexed by \<open>idx_gaia\<close>, has the length of \<open>Gmag\<close>.
\<close>

theorem members_index_aligned:
  assumes run: "members_cell lib g = Inr s"
      and xm: "crossmatch_cells lib tmass_epoch tmass s = Inr x"
  shows "length (ngc188_coords_3d s) = length (ngc188_members_mask s)
       \<and> (\<forall>c \<in> set (columns (ngc188_table s)). nrows c = length (ngc188_members_mask s))
       \<and> (\<forall>c \<in> set (columns (ngc188_members s)). nrows c = length (ngc188_members_coords s))
       \<and> (\<forall>i < length (ngc188_members_coords s).
            ngc188_members_coords s ! i
              = ngc188_coords_3d s ! (true_positions (ngc188_members_mask s) ! i)
          \<and> row (ngc188_members s) i
              = row (ngc188_table s) (true_positions (ngc188_members_mask s) ! i)
          \<and> (\<exists>d p1 p2 rv.
                ngc188_members_coords s ! i
                  = SkyCoord lib (unmasked (ra (ngc188_members s)) ! i)
                      (unmasked (dec (ngc188_members s)) ! i)
                      (Some d) (Some p1) (Some p2) (Some rv) (Some ''J2015.5'')))
       \<and> nrows (Jmag_v x) = nrows (Gmag x)
       \<and> nrows (Gmag x) = length (ngc188_members_coords s)"
proof -
  let ?m = "ngc188_members_mask s"
  let ?t = "ngc188_table s"
  from members_cell_Inr[OF run] obtain t0 c1 c2 c3 dist_a where
    tbl: "?t = t0\<lparr>pmra := c1, pmdec := c2, radial_velocity := c3\<rparr>" and
    sc: "SkyCoord_array lib (unmasked (ra t0)) (unmasked (dec t0)) (Some dist_a)
           (Some (pm_ra_cosdec_v s)) (Some (pm_dec_v s)) (Some (radial_velocity_v s))
           (Some ''J2015.5'') = Inr (ngc188_coords_3d s)" and
    tg: "table_getitem ?m ?t = Inr (ngc188_members s)" and
    gb: "getitem_bool ?m (ngc188_coords_3d s) = Inr (ngc188_members_coords s)"
    by blast
  from getitem_bool_Inr[OF gb] have len: "length ?m = length (ngc188_coords_3d s)"
    and mc: "ngc188_members_coords s = select ?m (ngc188_coords_3d s)" by simp_all
  have mc': "ngc188_members_coords s = map (\<lambda>j. ngc188_coords_3d s ! j) (true_positions ?m)"
    using mc select_positions[OF len] by simp
  have a: "\<forall>c \<in> set (columns ?t). nrows c = length ?m"
    using table_getitem_nrows[OF tg] by blast
  have b: "\<forall>c \<in> set (columns (ngc188_members s)). nrows c = length (ngc188_members_coords s)"
    using a by (auto simp: table_getitem_columns[OF tg] nrows_select_column mc')
  have c: "ngc188_members_coords s ! i = ngc188_coords_3d s ! (true_positions ?m ! i)
          \<and> row (ngc188_members s) i = row ?t (true_positions ?m ! i)
          \<and> (\<exists>d p1 p2 rv.
                ngc188_members_coords s ! i
                  = SkyCoord lib (unmasked (ra (ngc188_members s)) ! i)
                      (unmasked (dec (ngc188_members s)) ! i)
                      (Some d) (Some p1) (Some p2) (Some rv) (Some ''J2015.5''))"
    if i: "i < length (ngc188_members_coords s)" for i
  proof -
    let ?j = "true_positions ?m ! i"
    from i have i': "i < length (true_positions ?m)" by (simp add: mc')
    then have "?j \<in> set (true_positions ?m)" by simp
    then have j: "?j < length (ngc188_coords_3d s)"
      using true_positions_bound len by fastforce
    have at: "ngc188_members_coords s ! i = ngc188_coords_3d s ! ?j"
      using i' by (simp add: mc')
    have rw: "row (ngc188_members s) i = row ?t ?j"
      using row_select[OF tg i'] .
    then have pos: "unmasked (ra (ngc188_members s)) ! i = unmasked (ra t0) ! ?j"
      "unmasked (dec (ngc188_members s)) ! i = unmasked (dec t0) ! ?j"
      by (simp_all add: row_def columns_def tbl)
    from SkyCoord_array_Inr[OF sc] j have
      "ngc188_coords_3d s ! ?j
         = SkyCoord lib (unmasked (ra t0) ! ?j) (unmasked (dec t0) ! ?j) (Some (dist_a ! ?j))
             (Some (pm_ra_cosdec_v s ! ?j)) (Some (pm_dec_v s ! ?j))
             (Some (radial_velocity_v s ! ?j)) (Some ''J2015.5'')"
      by simp
    with at pos rw show ?thesis by auto
  qed
  have g: "nrows (Gmag x) = length (ngc188_members_coords s)"
    using xm b by (auto simp: crossmatch_cells_def Let_def columns_def split: sum.splits)
  have j: "nrows (Jmag_v x) = length (ngc188_members_coords s)"
    using xm
    by (cases "Jmag tmass")
       (auto simp: crossmatch_cells_def Let_def nrows_def getitem_int_def split: sum.splits if_splits)
  have c': "\<forall>i < length (ngc188_members_coords s).
            ngc188_members_coords s ! i = ngc188_coords_3d s ! (true_positions ?m ! i)
          \<and> row (ngc188_members s) i = row ?t (true_positions ?m ! i)
          \<and> (\<exists>d p1 p2 rv.
                ngc188_members_coords s ! i
                  = SkyCoord lib (unmasked (ra (ngc188_members s)) ! i)
                      (unmasked (dec (ngc188_members s)) ! i)
                      (Some d) (Some p1) (Some p2) (Some rv) (Some ''J2015.5''))"
    using c by blast
  from len have len': "length (ngc188_coords_3d s) = length ?m" by simp
  from g j have gj: "nrows (Jmag_v x) = nrows (Gmag x)" by simp
  show ?thesis using len' a b c' gj g by blast
qed

text \<open>
  On the three stars and the two 2MASS sources.
\<close>

theorem members_index_aligned_witness:
  "\<exists>s x. members_cell stand_in three_stars = Inr s
       \<and> crossmatch_cells stand_in () two_sources s = Inr x
       \<and> length (ngc188_coords_3d s) = length (ngc188_members_mask s)
       \<and> nrows (Jmag_v x) = nrows (Gmag x)
       \<and> ngc188_members_coords s ! 0 = ngc188_coords_3d s ! (true_positions (ngc188_members_mask s) ! 0)
       \<and> row (ngc188_members s) 0 = row (ngc188_table s) (true_positions (ngc188_members_mask s) ! 0)"
proof -
  from three_stars_run obtain s where run: "members_cell stand_in three_stars = Inr s"
    and mc: "ngc188_members_coords s = [(Fin 12, Fin 85)]" by blast
  from crossmatch_stand_in obtain x where xm: "crossmatch_cells stand_in () two_sources s = Inr x"
    by blast
  from members_index_aligned[OF run xm] mc run xm show ?thesis by auto
qed

end
